theory Spec2Isabelle
  imports Main
begin

section \<open>The host language: parameters, values, errors, the store\<close>

text \<open>
  The library of \<open>proc.py\<close> wraps Python callables. What it needs from the host is the
  parameter list of a callable (\<open>inspect.signature\<close>) and the call itself. A parameter
  has a name, one of Python's five kinds, and possibly a default value; the library
  never reads the default, so only its presence is recorded.
\<close>

datatype param_kind =
    POSITIONAL_ONLY
  | POSITIONAL_OR_KEYWORD
  | VAR_POSITIONAL
  | KEYWORD_ONLY
  | VAR_KEYWORD

record param =
  name :: string
  kind :: param_kind
  has_default :: bool

text \<open>
  Python raises \<open>TypeError\<close> both when a call passes the wrong number of arguments and
  when the called object is not callable; the reason is kept apart so that the two can
  be told from each other. \<open>AttributeError\<close> is what a method lookup on an object
  without that method raises. A user callable may raise anything else.
\<close>

datatype type_error = WrongArgumentCount | NotCallable | UnsupportedOperand

datatype error = TypeError type_error | AttributeError string | Raised string

text \<open>
  Values. \<open>Function i\<close> is the user callable number \<open>i\<close> of the program (a \<open>def\<close>, a
  \<open>lambda\<close> or any callable object of the host). \<open>RshiftLambda self proc\<close> and
  \<open>LshiftLambda self proc\<close> are the two closures built by \<open>Proc.__rshift__\<close> and
  \<open>Proc.__lshift__\<close>, with the two variables they capture.

  The three classes: the attributes set once by \<open>Proc.__init__\<close> (\<open>callback\<close>,
  \<open>parameters\<close>, \<open>arity\<close>, \<open>is_variadic\<close>) are never assigned again and are carried
  by the object value. The attribute \<open>argv\<close> of the two curried classes is reassigned by
  every call (\<open>self.argv += args\<close>), so it lives in the store under the identity of the
  instance, the first field of \<open>FCurriedProc\<close> and \<open>VCurriedProc\<close>.
\<close>

datatype val =
    VNone
  | VInt int
  | VTuple "val list"
  | Function nat
  | RshiftLambda val val
  | LshiftLambda val val
  | Proc val "param list" nat bool
  | FCurriedProc nat val "param list" nat bool
  | VCurriedProc nat val "param list" nat bool

record state =
  cells :: "nat \<Rightarrow> val list"
  fresh :: nat

type_synonym outcome = "(error + val) \<times> state"

text \<open>
  A user callable: its declared parameters and what it does with the positional
  arguments it is called with. It may read and change the store and may raise.
  Every callable of the program is taken to have an introspectable signature.
\<close>

record pyfun =
  params :: "param list"
  body :: "val list \<Rightarrow> state \<Rightarrow> outcome"

type_synonym program = "nat \<Rightarrow> pyfun"

text \<open>
  Python's binding of \<open>n\<close> positional arguments (and no keyword arguments) to a
  parameter list: every positional parameter without a default must be filled, no more
  arguments than positional parameters may be passed unless there is a \<open>*rest\<close>
  parameter, and no keyword-only parameter may be left without a value.
\<close>

definition is_positional :: "param \<Rightarrow> bool" where
  "is_positional p = (kind p = POSITIONAL_ONLY \<or> kind p = POSITIONAL_OR_KEYWORD)"

definition accepts :: "param list \<Rightarrow> nat \<Rightarrow> bool" where
  "accepts ps n =
     (length (filter (\<lambda>p. is_positional p \<and> \<not> has_default p) ps) \<le> n
      \<and> (n \<le> length (filter is_positional ps) \<or> list_ex (\<lambda>p. kind p = VAR_POSITIONAL) ps)
      \<and> \<not> list_ex (\<lambda>p. kind p = KEYWORD_ONLY \<and> \<not> has_default p) ps)"

text \<open>Sequencing of two steps: an error of the first step ends the evaluation.\<close>

definition and_then :: "outcome \<Rightarrow> (val \<Rightarrow> state \<Rightarrow> outcome) \<Rightarrow> outcome" where
  "and_then r k = (case r of (Inl e, s) \<Rightarrow> (Inl e, s) | (Inr v, s) \<Rightarrow> k v s)"

section \<open>The arity inspector\<close>

text \<open>
  \<^verbatim>\<open>
  def count_required(tally, param):
      required = [param.POSITIONAL_OR_KEYWORD, param.VAR_POSITIONAL]
      return tally + 1 if param.kind in required else tally
  def min_num_args(sig):
      return reduce(count_required, sig.parameters.values(), 0)
  def is_var_positional(param):
      return param.kind == param.VAR_POSITIONAL
  def is_variadic(sig):
      return any(map(is_var_positional, sig.parameters.values()))
  \<close>
\<close>

definition count_required :: "nat \<Rightarrow> param \<Rightarrow> nat" where
  "count_required tally p =
     (if kind p \<in> set [POSITIONAL_OR_KEYWORD, VAR_POSITIONAL] then tally + 1 else tally)"

definition min_num_args :: "param list \<Rightarrow> nat" where
  "min_num_args ps = foldl count_required 0 ps"

definition is_var_positional :: "param \<Rightarrow> bool" where
  "is_var_positional p = (kind p = VAR_POSITIONAL)"

definition is_variadic :: "param list \<Rightarrow> bool" where
  "is_variadic ps = list_ex is_var_positional ps"

text \<open>
  \<open>inspect.signature\<close>: the declared parameters of a user callable; for an instance of
  \<open>Proc\<close> or of a subclass, the parameters of \<open>__call__(self, *args)\<close> without
  \<open>self\<close>; for the two closures, those of \<open>lambda *args: ...\<close>; a \<open>TypeError\<close> for a
  value that is not callable.
\<close>

definition star_args :: param where
  "star_args = \<lparr>name = ''args'', kind = VAR_POSITIONAL, has_default = False\<rparr>"

fun signature :: "program \<Rightarrow> val \<Rightarrow> error + param list" where
  "signature \<Gamma> (Function i) = Inr (params (\<Gamma> i))"
| "signature \<Gamma> (RshiftLambda self proc) = Inr [star_args]"
| "signature \<Gamma> (LshiftLambda self proc) = Inr [star_args]"
| "signature \<Gamma> (Proc cb ps ar var) = Inr [star_args]"
| "signature \<Gamma> (FCurriedProc a cb ps ar var) = Inr [star_args]"
| "signature \<Gamma> (VCurriedProc a cb ps ar var) = Inr [star_args]"
| "signature \<Gamma> v = Inl (TypeError NotCallable)"

section \<open>The classes\<close>

text \<open>
  \<open>Proc.__init__\<close> reads the signature once and stores the callback, the parameters,
  the arity and the variadic flag. The constructors of the two curried classes run it
  and then store \<open>args\<close> as \<open>argv\<close> of the new instance: \<open>alloc args s\<close> puts
  \<open>args\<close> under the next unused identity, \<open>fresh s\<close>.
\<close>

definition alloc :: "val list \<Rightarrow> state \<Rightarrow> state" where
  "alloc args s = s\<lparr>cells := (cells s)(fresh s := args), fresh := Suc (fresh s)\<rparr>"

definition Proc_init :: "program \<Rightarrow> val \<Rightarrow> state \<Rightarrow> outcome" where
  "Proc_init \<Gamma> callback s =
     (case signature \<Gamma> callback of
        Inl e \<Rightarrow> (Inl e, s)
      | Inr ps \<Rightarrow> (Inr (Proc callback ps (min_num_args ps) (is_variadic ps)), s))"

definition FCurriedProc_init :: "program \<Rightarrow> val \<Rightarrow> val list \<Rightarrow> state \<Rightarrow> outcome" where
  "FCurriedProc_init \<Gamma> callback args s =
     (case signature \<Gamma> callback of
        Inl e \<Rightarrow> (Inl e, s)
      | Inr ps \<Rightarrow>
          (Inr (FCurriedProc (fresh s) callback ps (min_num_args ps) (is_variadic ps)),
           alloc args s))"

definition VCurriedProc_init :: "program \<Rightarrow> val \<Rightarrow> val list \<Rightarrow> state \<Rightarrow> outcome" where
  "VCurriedProc_init \<Gamma> callback args s =
     (case signature \<Gamma> callback of
        Inl e \<Rightarrow> (Inl e, s)
      | Inr ps \<Rightarrow>
          (Inr (VCurriedProc (fresh s) callback ps (min_num_args ps) (is_variadic ps)),
           alloc args s))"

text \<open>\<open>self.argv += args\<close> on the instance with identity \<open>a\<close>.\<close>

definition extend_argv :: "nat \<Rightarrow> val list \<Rightarrow> state \<Rightarrow> state" where
  "extend_argv a args s = s\<lparr>cells := (cells s)(a := cells s a @ args)\<rparr>"

text \<open>
  \<open>py_call \<Gamma> v args\<close> is the call expression \<open>v(*args)\<close> and \<open>call_method \<Gamma> v args\<close> is
  \<open>v.call(*args)\<close>, both with Python's method resolution:
  \<^item> a user callable checks the number of arguments and runs its body;
  \<^item> \<open>Proc.__call__\<close> is \<open>self.call(*args)\<close>, inherited by \<open>FCurriedProc\<close> and
    overridden by \<open>VCurriedProc\<close>, whose \<open>__call__\<close> extends \<open>argv\<close> and returns
    \<open>self\<close>;
  \<^item> \<open>Proc.call\<close> is \<open>self.callback(*args)\<close>; \<open>FCurriedProc.call\<close> extends \<open>argv\<close>
    and returns \<open>self\<close> below the arity, the callback's result otherwise;
    \<open>VCurriedProc.call\<close> extends \<open>argv\<close> and invokes the callback;
  \<^item> the closure of \<open>__rshift__\<close> is \<open>proc(self(*args))\<close>, that of \<open>__lshift__\<close> is
    \<open>self(proc(*args))\<close>;
  \<^item> calling anything else is a \<open>TypeError\<close>, and only the three classes have a
    method \<open>call\<close>.
\<close>

fun py_call :: "program \<Rightarrow> val \<Rightarrow> val list \<Rightarrow> state \<Rightarrow> outcome"
  and call_method :: "program \<Rightarrow> val \<Rightarrow> val list \<Rightarrow> state \<Rightarrow> outcome" where
  "py_call \<Gamma> (Function i) args s =
     (if accepts (params (\<Gamma> i)) (length args) then body (\<Gamma> i) args s
      else (Inl (TypeError WrongArgumentCount), s))"
| "py_call \<Gamma> (RshiftLambda self proc) args s =
     (case py_call \<Gamma> self args s of
        (Inl e, s') \<Rightarrow> (Inl e, s')
      | (Inr y, s') \<Rightarrow> py_call \<Gamma> proc [y] s')"
| "py_call \<Gamma> (LshiftLambda self proc) args s =
     (case py_call \<Gamma> proc args s of
        (Inl e, s') \<Rightarrow> (Inl e, s')
      | (Inr y, s') \<Rightarrow> py_call \<Gamma> self [y] s')"
| "py_call \<Gamma> (Proc cb ps ar var) args s = call_method \<Gamma> (Proc cb ps ar var) args s"
| "py_call \<Gamma> (FCurriedProc a cb ps ar var) args s =
     call_method \<Gamma> (FCurriedProc a cb ps ar var) args s"
| "py_call \<Gamma> (VCurriedProc a cb ps ar var) args s =
     (Inr (VCurriedProc a cb ps ar var), extend_argv a args s)"
| "py_call \<Gamma> VNone args s = (Inl (TypeError NotCallable), s)"
| "py_call \<Gamma> (VInt n) args s = (Inl (TypeError NotCallable), s)"
| "py_call \<Gamma> (VTuple vs) args s = (Inl (TypeError NotCallable), s)"
| "call_method \<Gamma> (Proc cb ps ar var) args s = py_call \<Gamma> cb args s"
| "call_method \<Gamma> (FCurriedProc a cb ps ar var) args s =
     (let s' = extend_argv a args s in
      if length (cells s' a) < ar then (Inr (FCurriedProc a cb ps ar var), s')
      else py_call \<Gamma> cb (cells s' a) s')"
| "call_method \<Gamma> (VCurriedProc a cb ps ar var) args s =
     (let s' = extend_argv a args s in py_call \<Gamma> cb (cells s' a) s')"
| "call_method \<Gamma> VNone args s = (Inl (AttributeError ''call''), s)"
| "call_method \<Gamma> (VInt n) args s = (Inl (AttributeError ''call''), s)"
| "call_method \<Gamma> (VTuple vs) args s = (Inl (AttributeError ''call''), s)"
| "call_method \<Gamma> (Function i) args s = (Inl (AttributeError ''call''), s)"
| "call_method \<Gamma> (RshiftLambda self proc) args s = (Inl (AttributeError ''call''), s)"
| "call_method \<Gamma> (LshiftLambda self proc) args s = (Inl (AttributeError ''call''), s)"

text \<open>
  \<open>v.curry(*args)\<close>: \<open>Proc.curry\<close> chooses the class by the variadic flag;
  \<open>FCurriedProc.curry\<close> is \<open>FCurriedProc(self.callback, *self.argv).call(*args)\<close>;
  \<open>VCurriedProc.curry\<close> is \<open>VCurriedProc(self.callback, *(self.argv + args))\<close>.
\<close>

fun curry_method :: "program \<Rightarrow> val \<Rightarrow> val list \<Rightarrow> state \<Rightarrow> outcome" where
  "curry_method \<Gamma> (Proc cb ps ar var) args s =
     (if var then VCurriedProc_init \<Gamma> cb args s else FCurriedProc_init \<Gamma> cb args s)"
| "curry_method \<Gamma> (FCurriedProc a cb ps ar var) args s =
     and_then (FCurriedProc_init \<Gamma> cb (cells s a) s) (\<lambda>c. call_method \<Gamma> c args)"
| "curry_method \<Gamma> (VCurriedProc a cb ps ar var) args s =
     VCurriedProc_init \<Gamma> cb (cells s a @ args) s"
| "curry_method \<Gamma> v args s = (Inl (AttributeError ''curry''), s)"

text \<open>
  \<open>self >> proc\<close> and \<open>self << proc\<close>, defined for an instance of \<open>Proc\<close> or of a
  subclass on the left: a new \<open>Proc\<close> around the closure. Other left operands have no
  such operator with a \<open>Proc\<close>.
\<close>

fun is_proc :: "val \<Rightarrow> bool" where
  "is_proc (Proc cb ps ar var) = True"
| "is_proc (FCurriedProc a cb ps ar var) = True"
| "is_proc (VCurriedProc a cb ps ar var) = True"
| "is_proc v = False"

definition rshift :: "program \<Rightarrow> val \<Rightarrow> val \<Rightarrow> state \<Rightarrow> outcome" where
  "rshift \<Gamma> self proc s =
     (if is_proc self then Proc_init \<Gamma> (RshiftLambda self proc) s
      else (Inl (TypeError UnsupportedOperand), s))"

definition lshift :: "program \<Rightarrow> val \<Rightarrow> val \<Rightarrow> state \<Rightarrow> outcome" where
  "lshift \<Gamma> self proc s =
     (if is_proc self then Proc_init \<Gamma> (LshiftLambda self proc) s
      else (Inl (TypeError UnsupportedOperand), s))"

text \<open>
  The chained call expression \<open>e(*as1)(*as2)...\<close>: each argument list is applied to the
  value of the expression before it.
\<close>

fun apply_each :: "program \<Rightarrow> outcome \<Rightarrow> val list list \<Rightarrow> outcome" where
  "apply_each \<Gamma> r [] = r"
| "apply_each \<Gamma> r (as # rest) = apply_each \<Gamma> (and_then r (\<lambda>c. py_call \<Gamma> c as)) rest"

section \<open>Example programs\<close>

text \<open>
  Python's \<open>+\<close> and \<open>*\<close> on the values of the model: integers add and multiply,
  tuples concatenate, a tuple times an integer repeats the tuple, and every other pair
  of operands is a \<open>TypeError\<close>.
\<close>

fun py_add :: "val \<Rightarrow> val \<Rightarrow> error + val" where
  "py_add (VInt x) (VInt y) = Inr (VInt (x + y))"
| "py_add (VTuple xs) (VTuple ys) = Inr (VTuple (xs @ ys))"
| "py_add v w = Inl (TypeError UnsupportedOperand)"

fun py_mul :: "val \<Rightarrow> val \<Rightarrow> error + val" where
  "py_mul (VInt x) (VInt y) = Inr (VInt (x * y))"
| "py_mul (VTuple xs) (VInt n) = Inr (VTuple (concat (replicate (nat n) xs)))"
| "py_mul (VInt n) (VTuple xs) = Inr (VTuple (concat (replicate (nat n) xs)))"
| "py_mul v w = Inl (TypeError UnsupportedOperand)"

text \<open>\<open>x + y + z\<close> is \<open>(x + y) + z\<close>; an error of the first sum is the result.\<close>

definition py_add3 :: "val \<Rightarrow> val \<Rightarrow> val \<Rightarrow> error + val" where
  "py_add3 x y z = (case py_add x y of Inl e \<Rightarrow> Inl e | Inr xy \<Rightarrow> py_add xy z)"

text \<open>
  The callables of the repository's tests, used as concrete inputs:
  \<open>lambda *a: a\<close>, \<open>lambda x, y, z: x + y + z\<close>, \<open>lambda x: x * x\<close>,
  \<open>lambda x: x + x\<close>, and five more: \<open>lambda w: w\<close>, a three-parameter function
  that returns the former, \<open>lambda x, y=1: x + y\<close>, the positional-only
  \<open>def f(a, b, /): return a + b\<close> (the shape of \<open>operator.add\<close>) and the
  positional-only \<open>def f(x, y, z, /): return x + y + z\<close>. A body is only run on an
  argument list that its parameters accept; on any other list it is the
  \<open>TypeError\<close> of the call.
\<close>

definition pk :: "string \<Rightarrow> param" where
  "pk n = \<lparr>name = n, kind = POSITIONAL_OR_KEYWORD, has_default = False\<rparr>"

definition po :: "string \<Rightarrow> param" where
  "po n = \<lparr>name = n, kind = POSITIONAL_ONLY, has_default = False\<rparr>"

definition tuple_fn :: pyfun where
  "tuple_fn = \<lparr>params = [\<lparr>name = ''a'', kind = VAR_POSITIONAL, has_default = False\<rparr>],
               body = (\<lambda>args s. (Inr (VTuple args), s))\<rparr>"

definition add3 :: pyfun where
  "add3 = \<lparr>params = [pk ''x'', pk ''y'', pk ''z''],
           body = (\<lambda>args s. case args of
                     [x, y, z] \<Rightarrow> (py_add3 x y z, s)
                   | _ \<Rightarrow> (Inl (TypeError WrongArgumentCount), s))\<rparr>"

definition square :: pyfun where
  "square = \<lparr>params = [pk ''x''],
             body = (\<lambda>args s. case args of
                       [x] \<Rightarrow> (py_mul x x, s)
                     | _ \<Rightarrow> (Inl (TypeError WrongArgumentCount), s))\<rparr>"

definition double :: pyfun where
  "double = \<lparr>params = [pk ''x''],
             body = (\<lambda>args s. case args of
                       [x] \<Rightarrow> (py_add x x, s)
                     | _ \<Rightarrow> (Inl (TypeError WrongArgumentCount), s))\<rparr>"

definition ident :: pyfun where
  "ident = \<lparr>params = [pk ''w''],
            body = (\<lambda>args s. case args of
                      [w] \<Rightarrow> (Inr w, s)
                    | _ \<Rightarrow> (Inl (TypeError WrongArgumentCount), s))\<rparr>"

definition give_ident :: pyfun where
  "give_ident = \<lparr>params = [pk ''x'', pk ''y'', pk ''z''],
                 body = (\<lambda>args s. (Inr (Function 4), s))\<rparr>"

definition add_default :: pyfun where
  "add_default = \<lparr>params = [pk ''x'', (pk ''y'')\<lparr>has_default := True\<rparr>],
                  body = (\<lambda>args s. case args of
                            [x] \<Rightarrow> (py_add x (VInt 1), s)
                          | [x, y] \<Rightarrow> (py_add x y, s)
                          | _ \<Rightarrow> (Inl (TypeError WrongArgumentCount), s))\<rparr>"

definition add_posonly :: pyfun where
  "add_posonly = \<lparr>params = [po ''a'', po ''b''],
                  body = (\<lambda>args s. case args of
                            [a, b] \<Rightarrow> (py_add a b, s)
                          | _ \<Rightarrow> (Inl (TypeError WrongArgumentCount), s))\<rparr>"

definition add3_posonly :: pyfun where
  "add3_posonly = \<lparr>params = [po ''x'', po ''y'', po ''z''],
                   body = (\<lambda>args s. case args of
                             [x, y, z] \<Rightarrow> (py_add3 x y z, s)
                           | _ \<Rightarrow> (Inl (TypeError WrongArgumentCount), s))\<rparr>"

definition prog :: program where
  "prog i =
     (if i = 0 then tuple_fn else if i = 1 then add3 else if i = 2 then square
      else if i = 3 then double else if i = 4 then ident else if i = 5 then give_ident
      else if i = 6 then add_default else if i = 7 then add_posonly else add3_posonly)"

definition s0 :: state where
  "s0 = \<lparr>cells = (\<lambda>a. []), fresh = 0\<rparr>"

text \<open>
  The reading of \<open>FCurriedProc.curry\<close> that starts from the buffer the instance was
  constructed with, \<open>original\<close>, whatever direct calls have appended since. The class
  keeps no such buffer; the definition is here to be compared with \<open>curry_method\<close>.
\<close>

definition curry_from_original ::
  "program \<Rightarrow> val \<Rightarrow> val list \<Rightarrow> val list \<Rightarrow> state \<Rightarrow> outcome" where
  "curry_from_original \<Gamma> callback original args s =
     and_then (FCurriedProc_init \<Gamma> callback original s) (\<lambda>c. call_method \<Gamma> c args)"

section \<open>Basic facts\<close>

lemmas fixture_defs = prog_def tuple_fn_def add3_def square_def double_def ident_def
  give_ident_def add_default_def add_posonly_def add3_posonly_def py_add3_def pk_def po_def
  s0_def

lemmas op_defs = Proc_init_def FCurriedProc_init_def VCurriedProc_init_def and_then_def
  rshift_def lshift_def

text \<open>The fold of \<open>min_num_args\<close> counts the parameters of the two listed kinds.\<close>

lemma foldl_count_required:
  "foldl count_required t ps =
     t + length (filter (\<lambda>p. kind p = POSITIONAL_OR_KEYWORD \<or> kind p = VAR_POSITIONAL) ps)"
  by (induction ps arbitrary: t) (simp_all add: count_required_def)

lemma min_num_args_counts:
  "min_num_args ps =
     length (filter (\<lambda>p. kind p = POSITIONAL_OR_KEYWORD \<or> kind p = VAR_POSITIONAL) ps)"
  by (simp add: min_num_args_def foldl_count_required)

lemma min_num_args_drop_positional_only:
  "min_num_args (filter (\<lambda>q. kind q \<noteq> POSITIONAL_ONLY) ps) = min_num_args ps"
proof -
  have "(kind q \<noteq> POSITIONAL_ONLY \<and> (kind q = POSITIONAL_OR_KEYWORD \<or> kind q = VAR_POSITIONAL))
        = (kind q = POSITIONAL_OR_KEYWORD \<or> kind q = VAR_POSITIONAL)" for q :: param
    by auto
  then show ?thesis
    by (simp add: min_num_args_counts conj_commute)
qed

lemmas inspect_defs = min_num_args_counts is_variadic_def is_var_positional_def

lemma min_num_args_star_args: "min_num_args [star_args] = 1"
  by (simp add: min_num_args_counts star_args_def)

lemma is_variadic_star_args: "is_variadic [star_args]"
  by (simp add: is_variadic_def is_var_positional_def star_args_def)

lemma signature_proc: "is_proc f \<Longrightarrow> signature \<Gamma> f = Inr [star_args]"
  by (cases f) simp_all

lemma not_callable:
  "signature \<Gamma> r = Inl e \<Longrightarrow> py_call \<Gamma> r args s = (Inl (TypeError NotCallable), s)"
  by (cases r) simp_all

lemma three_required:
  assumes "kind p1 = POSITIONAL_OR_KEYWORD" "kind p2 = POSITIONAL_OR_KEYWORD"
    "kind p3 = POSITIONAL_OR_KEYWORD"
  shows "min_num_args [p1, p2, p3] = 3 \<and> \<not> is_variadic [p1, p2, p3]"
  using assms by (simp add: inspect_defs)

lemma three_accepts:
  assumes "kind p1 = POSITIONAL_OR_KEYWORD" "kind p2 = POSITIONAL_OR_KEYWORD"
    "kind p3 = POSITIONAL_OR_KEYWORD"
    "\<not> has_default p1" "\<not> has_default p2" "\<not> has_default p3"
  shows "accepts [p1, p2, p3] (length [v1, v2, v3])"
  using assms by (simp add: accepts_def is_positional_def)

text \<open>The store: a new instance, and \<open>argv += args\<close> on it.\<close>

lemma extend_alloc: "a = fresh s \<Longrightarrow> extend_argv a xs (alloc ys s) = alloc (ys @ xs) s"
  by (simp add: extend_argv_def alloc_def)

lemma cells_alloc: "cells (alloc ys s) a = (if a = fresh s then ys else cells s a)"
  by (simp add: alloc_def)

lemma fresh_alloc: "fresh (alloc ys s) = Suc (fresh s)"
  by (simp add: alloc_def)

lemma cells_extend:
  "cells (extend_argv a xs s) b = (if b = a then cells s a @ xs else cells s b)"
  by (simp add: extend_argv_def)

lemma fresh_extend: "fresh (extend_argv a xs s) = fresh s"
  by (simp add: extend_argv_def)

lemmas store_simps = extend_alloc cells_alloc fresh_alloc cells_extend fresh_extend

text \<open>
  A chain of direct calls on a \<open>VCurriedProc\<close> never leaves the instance: by induction
  on the chain, with the store generalised.
\<close>

lemma apply_each_variadic:
  "apply_each \<Gamma> (Inr (VCurriedProc a cb ps ar var), s) argss =
     (Inr (VCurriedProc a cb ps ar var), extend_argv a (concat argss) s)"
proof (induction argss arbitrary: s)
  case Nil
  show ?case by (simp add: extend_argv_def)
next
  case (Cons as rest)
  have "extend_argv a (concat rest) (extend_argv a as s) = extend_argv a (as @ concat rest) s"
    by (simp add: extend_argv_def)
  with Cons show ?case by (simp add: and_then_def)
qed

text \<open>
  Chains of direct calls on a \<open>FCurriedProc\<close>. A chain is a left fold, so the
  induction is from the right. While the buffer stays below the arity each call returns
  the instance; the first call that brings the buffer to the arity invokes the callback
  on the whole buffer. A new instance (empty chain) has invoked nothing, whatever the
  length of its buffer.
\<close>

lemma apply_each_append:
  "apply_each \<Gamma> r (xs @ ys) = apply_each \<Gamma> (apply_each \<Gamma> r xs) ys"
  by (induction xs arbitrary: r) simp_all

lemma fcurried_chain_pending:
  assumes "pre = [] \<or> length (xs @ concat pre) < ar"
  shows "apply_each \<Gamma> (Inr (FCurriedProc (fresh s) cb ps ar var), alloc xs s) pre =
           (Inr (FCurriedProc (fresh s) cb ps ar var), alloc (xs @ concat pre) s)"
  using assms
proof (induction pre rule: rev_induct)
  case Nil
  show ?case by simp
next
  case (snoc y ys)
  from snoc.prems have less: "length (xs @ concat ys @ y) < ar"
    by simp
  then have "ys = [] \<or> length (xs @ concat ys) < ar"
    by simp
  then have ih: "apply_each \<Gamma> (Inr (FCurriedProc (fresh s) cb ps ar var), alloc xs s) ys =
      (Inr (FCurriedProc (fresh s) cb ps ar var), alloc (xs @ concat ys) s)"
    by (rule snoc.IH)
  show ?case
    using less by (simp add: apply_each_append ih and_then_def store_simps)
qed

lemma fcurried_chain_fires:
  assumes "pre = [] \<or> length (xs @ concat pre) < ar"
    and "ar \<le> length (xs @ concat pre @ final)"
  shows "apply_each \<Gamma> (Inr (FCurriedProc (fresh s) cb ps ar var), alloc xs s) (pre @ [final]) =
           py_call \<Gamma> cb (xs @ concat pre @ final) (alloc (xs @ concat pre @ final) s)"
  using assms(2)
  by (simp add: apply_each_append fcurried_chain_pending [OF assms(1)] and_then_def
      store_simps)

lemma arity_of_three:
  assumes "filter is_positional ps = [p1, p2, p3]"
    and "kind p1 = POSITIONAL_OR_KEYWORD" and "kind p2 = POSITIONAL_OR_KEYWORD"
    and "kind p3 = POSITIONAL_OR_KEYWORD"
    and "\<not> is_variadic ps"
  shows "min_num_args ps = 3"
proof -
  have novar: "kind p \<noteq> VAR_POSITIONAL" if "p \<in> set ps" for p
    using assms(5) that by (auto simp add: is_variadic_def is_var_positional_def list_ex_iff)
  have "filter (\<lambda>p. kind p = POSITIONAL_OR_KEYWORD \<or> kind p = VAR_POSITIONAL) ps =
        filter (\<lambda>p. is_positional p \<and> kind p = POSITIONAL_OR_KEYWORD) ps"
    by (rule filter_cong) (auto simp add: is_positional_def novar)
  also have "\<dots> = filter (\<lambda>p. kind p = POSITIONAL_OR_KEYWORD) (filter is_positional ps)"
    by simp
  also have "\<dots> = [p1, p2, p3]"
    using assms by simp
  finally show ?thesis
    by (simp add: min_num_args_counts)
qed

section \<open>The arity inspector: claims C3 and C9\<close>

text \<open>
  Claim C3: a positional-or-keyword parameter counts toward the arity only when it has
  no default value. \<open>count_required\<close> looks at the kind alone, although its docstring
  says it counts a parameter "if a parameter is required" and \<open>min_num_args\<close> promises
  "the number of minimal required parameters". For \<open>lambda x, y=1: x + y\<close> the arity
  of the \<open>Proc\<close> is 2, while the callable runs with one argument.
\<close>

theorem arity_counts_defaulted_parameter:
  "Proc_init prog (Function 6) s0 =
     (Inr (Proc (Function 6)
             [\<lparr>name = ''x'', kind = POSITIONAL_OR_KEYWORD, has_default = False\<rparr>,
              \<lparr>name = ''y'', kind = POSITIONAL_OR_KEYWORD, has_default = True\<rparr>] 2 False), s0)
   \<and> py_call prog (Function 6) [VInt 5] s0 = (Inr (VInt 6), s0)"
  by (simp add: fixture_defs op_defs inspect_defs accepts_def is_positional_def)

text \<open>
  Claim C9: a positional-only parameter contributes 0 to the arity of a \<open>Proc\<close>. For a
  callable whose parameter list contains the positional-only parameter \<open>p\<close>, the tally
  passes \<open>p\<close> unchanged, the \<open>Proc\<close> has the arity of the list without \<open>p\<close>
  (and of the list without any positional-only parameter), only the positional-or-keyword
  and variable-positional parameters are counted, and yet a call that leaves \<open>p\<close>
  without a value is refused when \<open>p\<close> has no default.
\<close>

theorem positional_only_not_counted:
  assumes "params (\<Gamma> i) = xs @ p # ys" and "kind p = POSITIONAL_ONLY"
  shows "count_required tally p = tally
    \<and> Proc_init \<Gamma> (Function i) s =
        (Inr (Proc (Function i) (xs @ p # ys) (min_num_args (xs @ ys)) (is_variadic (xs @ ys))), s)
    \<and> min_num_args (xs @ p # ys) =
        min_num_args (filter (\<lambda>q. kind q \<noteq> POSITIONAL_ONLY) (xs @ p # ys))
    \<and> min_num_args (xs @ p # ys) =
        length (filter (\<lambda>q. kind q = POSITIONAL_OR_KEYWORD \<or> kind q = VAR_POSITIONAL) (xs @ p # ys))
    \<and> (\<not> has_default p \<longrightarrow> \<not> accepts (xs @ p # ys) 0)"
proof -
  have c: "count_required tally p = tally"
    using assms(2) by (simp add: count_required_def)
  have a: "min_num_args (xs @ p # ys) = min_num_args (xs @ ys)"
    using assms(2) by (simp add: min_num_args_counts)
  have v: "is_variadic (xs @ p # ys) = is_variadic (xs @ ys)"
    using assms(2) by (simp add: is_variadic_def is_var_positional_def)
  have i: "Proc_init \<Gamma> (Function i) s =
      (Inr (Proc (Function i) (xs @ p # ys) (min_num_args (xs @ ys)) (is_variadic (xs @ ys))), s)"
    using assms(1) by (simp add: Proc_init_def a v)
  have f: "min_num_args (xs @ p # ys) =
      min_num_args (filter (\<lambda>q. kind q \<noteq> POSITIONAL_ONLY) (xs @ p # ys))"
    by (rule min_num_args_drop_positional_only [symmetric])
  have l: "min_num_args (xs @ p # ys) =
      length (filter (\<lambda>q. kind q = POSITIONAL_OR_KEYWORD \<or> kind q = VAR_POSITIONAL)
        (xs @ p # ys))"
    by (rule min_num_args_counts)
  have r: "\<not> has_default p \<longrightarrow> \<not> accepts (xs @ p # ys) 0"
    using assms(2) by (simp add: accepts_def is_positional_def)
  from c i f l r show ?thesis
    by blast
qed

text \<open>
  At \<open>def f(a, b, /)\<close>: the arity is 0, a call without arguments fails and a call with
  two succeeds.
\<close>

theorem positional_only_not_counted_witness:
  "params (prog 7) =
     [] @ po ''a'' # [po ''b'']
   \<and> kind (po ''a'') = POSITIONAL_ONLY
   \<and> Proc_init prog (Function 7) s0 = (Inr (Proc (Function 7) (params add_posonly) 0 False), s0)
   \<and> py_call prog (Function 7) [] s0 = (Inl (TypeError WrongArgumentCount), s0)
   \<and> py_call prog (Function 7) [VInt 2, VInt 3] s0 = (Inr (VInt 5), s0)"
  using positional_only_not_counted [of prog 7 "[]" "po ''a''"
      "[po ''b'']" 0 s0]
  by (simp add: fixture_defs inspect_defs accepts_def is_positional_def)

section \<open>Composition: claims C7 and C10\<close>

text \<open>
  Claim C7: forward composition runs \<open>f\<close> first and backward composition runs \<open>g\<close>
  first. For every instance \<open>f\<close> of \<open>Proc\<close> or of a subclass, every \<open>g\<close> and every
  \<open>x\<close>, \<open>(f >> g).call(x)\<close> is \<open>g(f(x))\<close> and \<open>(f << g).call(x)\<close> is \<open>f(g(x))\<close>:
  the same result or the same error, and the same store afterwards.
\<close>

theorem composition_order:
  assumes "is_proc f"
  shows "and_then (rshift \<Gamma> f g s) (\<lambda>h. call_method \<Gamma> h [x]) =
           and_then (py_call \<Gamma> f [x] s) (\<lambda>y. py_call \<Gamma> g [y])
    \<and> and_then (lshift \<Gamma> f g s) (\<lambda>h. call_method \<Gamma> h [x]) =
           and_then (py_call \<Gamma> g [x] s) (\<lambda>y. py_call \<Gamma> f [y])"
  using assms
  by (simp add: op_defs min_num_args_star_args is_variadic_star_args
      split: prod.splits sum.splits)

text \<open>
  The repository's test: with \<open>f = Proc(lambda x: x * x)\<close> and
  \<open>g = Proc(lambda x: x + x)\<close>, \<open>(f >> g).call(2)\<close> is 8 and \<open>(f << g).call(2)\<close> is 16.
\<close>

theorem composition_order_witness:
  "is_proc (Proc (Function 2) (params square) 1 False)
   \<and> and_then (rshift prog (Proc (Function 2) (params square) 1 False)
                            (Proc (Function 3) (params double) 1 False) s0)
        (\<lambda>h. call_method prog h [VInt 2]) = (Inr (VInt 8), s0)
   \<and> and_then (lshift prog (Proc (Function 2) (params square) 1 False)
                            (Proc (Function 3) (params double) 1 False) s0)
        (\<lambda>h. call_method prog h [VInt 2]) = (Inr (VInt 16), s0)"
  using composition_order [of "Proc (Function 2) (params square) 1 False" prog
      "Proc (Function 3) (params double) 1 False" s0 "VInt 2"]
  by (simp add: fixture_defs and_then_def accepts_def is_positional_def)

text \<open>
  Claim C10: for every pair \<open>f\<close>, \<open>g\<close> the composed \<open>Proc\<close>s \<open>f >> g\<close> and \<open>f << g\<close>
  have arity 1 and are variadic, the closure being \<open>lambda *args: ...\<close>; so \<open>curry\<close> on
  a composed \<open>Proc\<close> builds a \<open>VCurriedProc\<close>.
\<close>

theorem composed_proc_is_variadic:
  assumes "is_proc f"
  shows "rshift \<Gamma> f g s = (Inr (Proc (RshiftLambda f g) [star_args] 1 True), s)
    \<and> lshift \<Gamma> f g s = (Inr (Proc (LshiftLambda f g) [star_args] 1 True), s)
    \<and> and_then (rshift \<Gamma> f g s) (\<lambda>h. curry_method \<Gamma> h args) =
        (Inr (VCurriedProc (fresh s) (RshiftLambda f g) [star_args] 1 True), alloc args s)
    \<and> and_then (lshift \<Gamma> f g s) (\<lambda>h. curry_method \<Gamma> h args) =
        (Inr (VCurriedProc (fresh s) (LshiftLambda f g) [star_args] 1 True), alloc args s)"
  using assms
  by (simp add: op_defs min_num_args_star_args is_variadic_star_args)

theorem composed_proc_is_variadic_witness:
  "is_proc (Proc (Function 2) (params square) 1 False)
   \<and> rshift prog (Proc (Function 2) (params square) 1 False)
        (Proc (Function 3) (params double) 1 False) s0 =
       (Inr (Proc (RshiftLambda (Proc (Function 2) (params square) 1 False)
                                (Proc (Function 3) (params double) 1 False))
                  [star_args] 1 True), s0)
   \<and> and_then (lshift prog (Proc (Function 2) (params square) 1 False)
                  (Proc (Function 3) (params double) 1 False) s0)
        (\<lambda>h. curry_method prog h [VInt 2]) =
       (Inr (VCurriedProc 0 (LshiftLambda (Proc (Function 2) (params square) 1 False)
                                          (Proc (Function 3) (params double) 1 False))
                          [star_args] 1 True), alloc [VInt 2] s0)"
proof -
  have h: "is_proc (Proc (Function 2) (params square) 1 False)"
    by simp
  have z: "fresh s0 = 0"
    by (simp add: s0_def)
  note th = composed_proc_is_variadic [OF h, of prog
      "Proc (Function 3) (params double) 1 False" s0 "[VInt 2]"]
  show ?thesis
  proof (intro conjI)
    show "is_proc (Proc (Function 2) (params square) 1 False)"
      by (rule h)
  next
    show "rshift prog (Proc (Function 2) (params square) 1 False)
            (Proc (Function 3) (params double) 1 False) s0 =
          (Inr (Proc (RshiftLambda (Proc (Function 2) (params square) 1 False)
                                   (Proc (Function 3) (params double) 1 False))
                     [star_args] 1 True), s0)"
      by (rule th [THEN conjunct1])
  next
    show "and_then (lshift prog (Proc (Function 2) (params square) 1 False)
                      (Proc (Function 3) (params double) 1 False) s0)
            (\<lambda>h. curry_method prog h [VInt 2]) =
          (Inr (VCurriedProc 0 (LshiftLambda (Proc (Function 2) (params square) 1 False)
                                             (Proc (Function 3) (params double) 1 False))
                             [star_args] 1 True), alloc [VInt 2] s0)"
      using th [THEN conjunct2, THEN conjunct2, THEN conjunct2] unfolding z .
  qed
qed

section \<open>The variable-arity curried procedure: claims C8 and C1\<close>

text \<open>
  Claim C8: every direct invocation of a \<open>VCurriedProc\<close> appends the arguments to the
  buffer of the instance and returns that same instance: the value returned is the
  receiver with its identity \<open>a\<close>, the store changes at \<open>a\<close> only, by the appended
  arguments, no instance is created (\<open>fresh\<close> is as before), and the callback is not
  run. The same holds along a whole chain of direct invocations.
\<close>

theorem variadic_direct_call_returns_self:
  "py_call \<Gamma> (VCurriedProc a cb ps ar var) args s =
     (Inr (VCurriedProc a cb ps ar var), s\<lparr>cells := (cells s)(a := cells s a @ args)\<rparr>)
   \<and> apply_each \<Gamma> (Inr (VCurriedProc a cb ps ar var), s) argss =
     (Inr (VCurriedProc a cb ps ar var),
      s\<lparr>cells := (cells s)(a := cells s a @ concat argss)\<rparr>)"
  by (simp add: apply_each_variadic extend_argv_def)

text \<open>
  Claim C1: for \<open>v = Proc(lambda *a: a)\<close>, \<open>v.curry(1)(2)(3)()\<close> is \<open>(1, 2, 3)\<close> and
  \<open>v.curry()(1)(2)()\<close> is \<open>(1, 2)\<close>, as \<open>test_variadic_curried_proc\<close> asserts. The
  code does otherwise: the trailing \<open>()\<close> is one more \<open>VCurriedProc.__call__\<close>, which
  returns the instance, with the buffer \<open>(1, 2, 3)\<close> respectively \<open>(1, 2)\<close>. The tuple
  comes out only when the chain ends with the method \<open>call\<close>.
\<close>

theorem variadic_zero_arg_call_returns_receiver:
  "apply_each prog (and_then (Proc_init prog (Function 0) s0)
       (\<lambda>v. curry_method prog v [VInt 1])) [[VInt 2], [VInt 3], []] =
     (Inr (VCurriedProc 0 (Function 0) (params tuple_fn) 1 True),
      alloc [VInt 1, VInt 2, VInt 3] s0)
   \<and> apply_each prog (and_then (Proc_init prog (Function 0) s0)
       (\<lambda>v. curry_method prog v [])) [[VInt 1], [VInt 2], []] =
     (Inr (VCurriedProc 0 (Function 0) (params tuple_fn) 1 True), alloc [VInt 1, VInt 2] s0)
   \<and> fst (and_then (apply_each prog (and_then (Proc_init prog (Function 0) s0)
       (\<lambda>v. curry_method prog v [VInt 1])) [[VInt 2], [VInt 3]])
       (\<lambda>c. call_method prog c [])) = Inr (VTuple [VInt 1, VInt 2, VInt 3])"
  by (simp add: fixture_defs op_defs inspect_defs alloc_def extend_argv_def accepts_def
      is_positional_def)

section \<open>The fixed-arity curried procedure: claims C2, C4 and C6\<close>

text \<open>
  Claim C2 says that for every fixed-arity callable with three required positional
  parameters all groupings of 1, 2, 3 return \<open>f(1, 2, 3)\<close>, invocation firing
  exactly when the accumulated count reaches the arity. Two things stand against it.
  For the positional-only \<open>def f(x, y, z, /): return x + y + z\<close>, \<open>f(1, 2, 3)\<close> is 6
  but the inspector counts no parameter, the arity is 0, and \<open>Proc(f).curry(1)(2)(3)\<close>
  calls \<open>f(1, 2)\<close> at the first direct call, a \<open>TypeError\<close>. And \<open>curry\<close> itself never
  invokes: for \<open>lambda x, y, z: x + y + z\<close>, \<open>curry(1, 2, 3)\<close> has reached the arity
  and is a pending instance.
\<close>

theorem grouping_positional_only_counterexample:
  "params (prog 8) = [po ''x'', po ''y'', po ''z'']
   \<and> py_call prog (Function 8) [VInt 1, VInt 2, VInt 3] s0 = (Inr (VInt 6), s0)
   \<and> Proc_init prog (Function 8) s0 = (Inr (Proc (Function 8) (params add3_posonly) 0 False), s0)
   \<and> fst (apply_each prog (and_then (Proc_init prog (Function 8) s0)
        (\<lambda>b. curry_method prog b [VInt 1])) [[VInt 2], [VInt 3]]) =
       Inl (TypeError WrongArgumentCount)
   \<and> and_then (Proc_init prog (Function 1) s0)
        (\<lambda>b. curry_method prog b [VInt 1, VInt 2, VInt 3]) =
       (Inr (FCurriedProc 0 (Function 1) (params add3) 3 False),
        alloc [VInt 1, VInt 2, VInt 3] s0)"
  by (simp add: fixture_defs op_defs inspect_defs alloc_def extend_argv_def accepts_def
      is_positional_def)

text \<open>
  Claim C2 as amended: for every fixed-arity callable \<open>f\<close> whose positional parameters
  are exactly three positional-or-keyword parameters without defaults (the shape
  \<open>f(x, y, z)\<close>), every grouping \<open>curry(*a0)(*a1)...(*ak)\<close> that supplies exactly the
  arguments 1, 2, 3 in order and whose last direct call is the first to bring the count
  to 3 returns \<open>f(1, 2, 3)\<close>: \<open>curry(1)(2)(3)\<close>, \<open>curry(1, 2)(3)\<close>,
  \<open>curry(1)(2, 3)\<close>, \<open>curry()(1, 2, 3)\<close> and also \<open>curry(1, 2, 3)()\<close>. \<open>curry\<close>
  only constructs, every direct call that leaves the count below 3 returns the pending
  instance with the buffer so far, and only the accumulated sequence matters, not the
  grouping. The arguments are arbitrary values; when \<open>f\<close> has no further parameters the
  call \<open>f(1, 2, 3)\<close> runs the body.
\<close>

theorem fixed_arity_grouping:
  assumes "filter is_positional (params (\<Gamma> f)) = [p1, p2, p3]"
    and "kind p1 = POSITIONAL_OR_KEYWORD" and "kind p2 = POSITIONAL_OR_KEYWORD"
    and "kind p3 = POSITIONAL_OR_KEYWORD"
    and "\<not> has_default p1" and "\<not> has_default p2" and "\<not> has_default p3"
    and "\<not> is_variadic (params (\<Gamma> f))"
    and "a0 @ concat pre @ final = [v1, v2, v3]"
    and "pre = [] \<or> length (a0 @ concat pre) < 3"
  shows "apply_each \<Gamma> (and_then (Proc_init \<Gamma> (Function f) s)
             (\<lambda>b. curry_method \<Gamma> b a0)) (pre @ [final])
       = py_call \<Gamma> (Function f) [v1, v2, v3] (alloc [v1, v2, v3] s)
    \<and> apply_each \<Gamma> (and_then (Proc_init \<Gamma> (Function f) s)
             (\<lambda>b. curry_method \<Gamma> b a0)) pre
       = (Inr (FCurriedProc (fresh s) (Function f) (params (\<Gamma> f)) 3 False),
          alloc (a0 @ concat pre) s)
    \<and> (params (\<Gamma> f) = [p1, p2, p3] \<longrightarrow>
         py_call \<Gamma> (Function f) [v1, v2, v3] (alloc [v1, v2, v3] s)
           = body (\<Gamma> f) [v1, v2, v3] (alloc [v1, v2, v3] s))"
proof -
  have ar: "min_num_args (params (\<Gamma> f)) = 3"
    using assms(1-4,8) by (rule arity_of_three)
  have start: "and_then (Proc_init \<Gamma> (Function f) s) (\<lambda>b. curry_method \<Gamma> b a0) =
      (Inr (FCurriedProc (fresh s) (Function f) (params (\<Gamma> f)) 3 False), alloc a0 s)"
    using assms(8) by (simp add: op_defs ar)
  have len: "3 \<le> length (a0 @ concat pre @ final)"
    by (simp only: assms(9)) simp
  have fires: "apply_each \<Gamma> (and_then (Proc_init \<Gamma> (Function f) s)
             (\<lambda>b. curry_method \<Gamma> b a0)) (pre @ [final])
       = py_call \<Gamma> (Function f) [v1, v2, v3] (alloc [v1, v2, v3] s)"
    unfolding start
    using fcurried_chain_fires [OF assms(10) len, of \<Gamma> s "Function f" "params (\<Gamma> f)" False]
    by (simp only: assms(9))
  have pending: "apply_each \<Gamma> (and_then (Proc_init \<Gamma> (Function f) s)
             (\<lambda>b. curry_method \<Gamma> b a0)) pre
       = (Inr (FCurriedProc (fresh s) (Function f) (params (\<Gamma> f)) 3 False),
          alloc (a0 @ concat pre) s)"
    unfolding start by (rule fcurried_chain_pending [OF assms(10)])
  have runs: "params (\<Gamma> f) = [p1, p2, p3] \<longrightarrow>
         py_call \<Gamma> (Function f) [v1, v2, v3] t = body (\<Gamma> f) [v1, v2, v3] t" for t
  proof
    assume p: "params (\<Gamma> f) = [p1, p2, p3]"
    have "accepts [p1, p2, p3] (length [v1, v2, v3])"
      using assms(2-7) by (intro three_accepts)
    with p show "py_call \<Gamma> (Function f) [v1, v2, v3] t = body (\<Gamma> f) [v1, v2, v3] t"
      by (simp del: list.size)
  qed
  from fires pending runs show ?thesis
    by blast
qed

text \<open>
  The repository's test: \<open>lambda x, y, z: x + y + z\<close> on 1, 2, 3 gives 6 for each of
  the four groupings, and for \<open>curry(1, 2, 3)()\<close>.
\<close>

theorem fixed_arity_grouping_witness:
  "filter is_positional (params (prog 1)) = [pk ''x'', pk ''y'', pk ''z'']
   \<and> kind (pk ''x'') = POSITIONAL_OR_KEYWORD \<and> \<not> has_default (pk ''x'')
   \<and> kind (pk ''y'') = POSITIONAL_OR_KEYWORD \<and> \<not> has_default (pk ''y'')
   \<and> kind (pk ''z'') = POSITIONAL_OR_KEYWORD \<and> \<not> has_default (pk ''z'')
   \<and> \<not> is_variadic (params (prog 1))
   \<and> [VInt 1] @ concat [[VInt 2]] @ [VInt 3] = [VInt 1, VInt 2, VInt 3]
   \<and> ([[VInt 2]] = [] \<or> length ([VInt 1] @ concat [[VInt 2]]) < 3)
   \<and> apply_each prog (and_then (Proc_init prog (Function 1) s0)
        (\<lambda>b. curry_method prog b [VInt 1])) [[VInt 2], [VInt 3]] =
       (Inr (VInt 6), alloc [VInt 1, VInt 2, VInt 3] s0)
   \<and> apply_each prog (and_then (Proc_init prog (Function 1) s0)
        (\<lambda>b. curry_method prog b [VInt 1, VInt 2])) [[VInt 3]] =
       (Inr (VInt 6), alloc [VInt 1, VInt 2, VInt 3] s0)
   \<and> apply_each prog (and_then (Proc_init prog (Function 1) s0)
        (\<lambda>b. curry_method prog b [VInt 1])) [[VInt 2, VInt 3]] =
       (Inr (VInt 6), alloc [VInt 1, VInt 2, VInt 3] s0)
   \<and> apply_each prog (and_then (Proc_init prog (Function 1) s0)
        (\<lambda>b. curry_method prog b [])) [[VInt 1, VInt 2, VInt 3]] =
       (Inr (VInt 6), alloc [VInt 1, VInt 2, VInt 3] s0)
   \<and> apply_each prog (and_then (Proc_init prog (Function 1) s0)
        (\<lambda>b. curry_method prog b [VInt 1, VInt 2, VInt 3])) [[]] =
       (Inr (VInt 6), alloc [VInt 1, VInt 2, VInt 3] s0)"
proof -
  have p: "filter is_positional (params (prog 1)) = [pk ''x'', pk ''y'', pk ''z'']"
    by (simp add: prog_def add3_def pk_def is_positional_def)
  have k: "kind (pk n) = POSITIONAL_OR_KEYWORD" for n
    by (simp add: pk_def)
  have d: "\<not> has_default (pk n)" for n
    by (simp add: pk_def)
  have v: "\<not> is_variadic (params (prog 1))"
    by (simp add: prog_def add3_def pk_def inspect_defs)
  have b: "py_call prog (Function 1) [VInt 1, VInt 2, VInt 3] t = (Inr (VInt 6), t)" for t
    by (simp add: fixture_defs accepts_def is_positional_def)
  note th = fixed_arity_grouping [where \<Gamma> = prog and f = 1 and s = s0, OF p k k k d d d v]
  have g1: "apply_each prog (and_then (Proc_init prog (Function 1) s0)
      (\<lambda>b. curry_method prog b [VInt 1])) [[VInt 2], [VInt 3]] =
      (Inr (VInt 6), alloc [VInt 1, VInt 2, VInt 3] s0)"
  proof -
    have e: "[VInt 1] @ concat [[VInt 2]] @ [VInt 3] = [VInt 1, VInt 2, VInt 3]"
      by simp
    have c: "[[VInt 2]] = [] \<or> length ([VInt 1] @ concat [[VInt 2]]) < 3"
      by simp
    show ?thesis
      using th [OF e c, THEN conjunct1] by (simp only: append.simps b)
  qed
  have g2: "apply_each prog (and_then (Proc_init prog (Function 1) s0)
      (\<lambda>b. curry_method prog b [VInt 1, VInt 2])) [[VInt 3]] =
      (Inr (VInt 6), alloc [VInt 1, VInt 2, VInt 3] s0)"
  proof -
    have e: "[VInt 1, VInt 2] @ concat [] @ [VInt 3] = [VInt 1, VInt 2, VInt 3]"
      by simp
    have c: "[] = [] \<or> length ([VInt 1, VInt 2] @ concat []) < 3"
      by simp
    show ?thesis
      using th [OF e c, THEN conjunct1] by (simp only: append.simps b)
  qed
  have g3: "apply_each prog (and_then (Proc_init prog (Function 1) s0)
      (\<lambda>b. curry_method prog b [VInt 1])) [[VInt 2, VInt 3]] =
      (Inr (VInt 6), alloc [VInt 1, VInt 2, VInt 3] s0)"
  proof -
    have e: "[VInt 1] @ concat [] @ [VInt 2, VInt 3] = [VInt 1, VInt 2, VInt 3]"
      by simp
    have c: "[] = [] \<or> length ([VInt 1] @ concat []) < 3"
      by simp
    show ?thesis
      using th [OF e c, THEN conjunct1] by (simp only: append.simps b)
  qed
  have g4: "apply_each prog (and_then (Proc_init prog (Function 1) s0)
      (\<lambda>b. curry_method prog b [])) [[VInt 1, VInt 2, VInt 3]] =
      (Inr (VInt 6), alloc [VInt 1, VInt 2, VInt 3] s0)"
  proof -
    have e: "[] @ concat [] @ [VInt 1, VInt 2, VInt 3] = [VInt 1, VInt 2, VInt 3]"
      by simp
    have c: "[] = [] \<or> length ([] @ concat []) < 3"
      by simp
    show ?thesis
      using th [OF e c, THEN conjunct1] by (simp only: append.simps b)
  qed
  have g5: "apply_each prog (and_then (Proc_init prog (Function 1) s0)
      (\<lambda>b. curry_method prog b [VInt 1, VInt 2, VInt 3])) [[]] =
      (Inr (VInt 6), alloc [VInt 1, VInt 2, VInt 3] s0)"
  proof -
    have e: "[VInt 1, VInt 2, VInt 3] @ concat [] @ [] = [VInt 1, VInt 2, VInt 3]"
      by simp
    have c: "[] = [] \<or> length ([VInt 1, VInt 2, VInt 3] @ concat []) < 3"
      by simp
    show ?thesis
      using th [OF e c, THEN conjunct1] by (simp only: append.simps b)
  qed
  have e1: "[VInt 1] @ concat [[VInt 2]] @ [VInt 3] = [VInt 1, VInt 2, VInt 3]"
    by simp
  have c1: "[[VInt 2]] = [] \<or> length ([VInt 1] @ concat [[VInt 2]]) < 3"
    by simp
  from p k d v e1 c1 g1 g2 g3 g4 g5 show ?thesis
    by blast
qed

text \<open>
  Claim C4 says that \<open>curry\<close> on a fixed-arity curried procedure starts from the buffer
  the instance was constructed with and drops what direct calls have appended. The
  class has one buffer, \<open>argv\<close>, and direct calls reassign it. With
  \<open>c = Proc(lambda x, y, z: x + y + z).curry(1)\<close> and the direct call \<open>c(2)\<close>, the
  code's \<open>c.curry(3)\<close> runs the callable on \<open>(1, 2, 3)\<close> and gives 6; starting from the
  original buffer \<open>(1,)\<close> would give a pending instance with the buffer \<open>(1, 3)\<close>.
\<close>

theorem fcurry_keeps_accumulated_counterexample:
  "and_then (and_then (Proc_init prog (Function 1) s0) (\<lambda>b. curry_method prog b [VInt 1]))
      (\<lambda>c. py_call prog c [VInt 2]) =
     (Inr (FCurriedProc 0 (Function 1) (params add3) 3 False), alloc [VInt 1, VInt 2] s0)
   \<and> fst (curry_method prog (FCurriedProc 0 (Function 1) (params add3) 3 False) [VInt 3]
            (alloc [VInt 1, VInt 2] s0)) = Inr (VInt 6)
   \<and> fst (curry_from_original prog (Function 1) [VInt 1] [VInt 3] (alloc [VInt 1, VInt 2] s0)) =
       Inr (FCurriedProc 1 (Function 1) (params add3) 3 False)
   \<and> cells (snd (curry_from_original prog (Function 1) [VInt 1] [VInt 3]
                   (alloc [VInt 1, VInt 2] s0))) 1 = [VInt 1, VInt 3]
   \<and> curry_method prog (FCurriedProc 0 (Function 1) (params add3) 3 False) [VInt 3]
        (alloc [VInt 1, VInt 2] s0) \<noteq>
      curry_from_original prog (Function 1) [VInt 1] [VInt 3] (alloc [VInt 1, VInt 2] s0)"
  by (simp add: fixture_defs op_defs inspect_defs alloc_def extend_argv_def
      curry_from_original_def accepts_def is_positional_def)

text \<open>
  Claim C4 as amended: \<open>curry(*args)\<close> on a fixed-arity curried procedure builds a new
  instance from the receiver's current buffer, arguments of earlier direct calls
  included, appends \<open>args\<close> to the new instance and applies at once: below the arity
  the new instance is returned, otherwise the callable is invoked on the combined
  arguments. The receiver's own buffer is as before when this happens.
\<close>

theorem fcurry_from_current_buffer:
  assumes "signature \<Gamma> cb = Inr ps'" and "a < fresh s"
  shows "curry_method \<Gamma> (FCurriedProc a cb ps ar var) args s =
      (if length (cells s a @ args) < min_num_args ps'
       then (Inr (FCurriedProc (fresh s) cb ps' (min_num_args ps') (is_variadic ps')),
             alloc (cells s a @ args) s)
       else py_call \<Gamma> cb (cells s a @ args) (alloc (cells s a @ args) s))
    \<and> cells (alloc (cells s a @ args) s) a = cells s a"
  using assms by (simp add: op_defs store_simps Let_def)

theorem fcurry_from_current_buffer_witness:
  "signature prog (Function 1) = Inr (params add3)
   \<and> 0 < fresh (alloc [VInt 1, VInt 2] s0)
   \<and> curry_method prog (FCurriedProc 0 (Function 1) (params add3) 3 False) [VInt 3]
        (alloc [VInt 1, VInt 2] s0) =
      (Inr (VInt 6), alloc [VInt 1, VInt 2, VInt 3] (alloc [VInt 1, VInt 2] s0))
   \<and> cells (alloc [VInt 1, VInt 2, VInt 3] (alloc [VInt 1, VInt 2] s0)) 0 = [VInt 1, VInt 2]"
proof -
  have h1: "signature prog (Function 1) = Inr (params add3)"
    by (simp add: prog_def)
  have h2: "0 < fresh (alloc [VInt 1, VInt 2] s0)"
    by (simp add: fresh_alloc)
  have c: "cells (alloc [VInt 1, VInt 2] s0) 0 = [VInt 1, VInt 2]"
    by (simp add: alloc_def s0_def)
  have ar: "min_num_args (params add3) = 3"
    by (simp add: add3_def pk_def inspect_defs)
  have call: "py_call prog (Function 1) [VInt 1, VInt 2, VInt 3] t = (Inr (VInt 6), t)" for t
    by (simp add: fixture_defs accepts_def is_positional_def)
  have app: "[VInt 1, VInt 2] @ [VInt 3] = [VInt 1, VInt 2, VInt 3]"
    by simp
  have len: "\<not> length [VInt 1, VInt 2, VInt 3] < 3"
    by simp
  note th = fcurry_from_current_buffer [OF h1 h2, of "params add3" 3 False "[VInt 3]"]
  show ?thesis
    using th h1 h2 by (simp only: c ar call app len if_False simp_thms)
qed

text \<open>
  Double currying at the input of \<open>test_double_curried_proc\<close>: for
  \<open>b = Proc(lambda x, y, z: x + y + z)\<close>, \<open>b.curry(1).curry(2, 3)\<close> has already
  invoked the callable and is the number 6, so that \<open>.call(4)\<close> on it is an
  \<open>AttributeError\<close>, while \<open>b.curry(1, 2, 3)\<close> is an instance that has invoked
  nothing.
\<close>

lemma double_curry_at_test_input:
  "fst (and_then (and_then (Proc_init prog (Function 1) s0)
          (\<lambda>b. curry_method prog b [VInt 1]))
          (\<lambda>c. curry_method prog c [VInt 2, VInt 3])) = Inr (VInt 6)
   \<and> fst (and_then (and_then (and_then (Proc_init prog (Function 1) s0)
          (\<lambda>b. curry_method prog b [VInt 1]))
          (\<lambda>c. curry_method prog c [VInt 2, VInt 3]))
          (\<lambda>c. call_method prog c [VInt 4])) = Inl (AttributeError ''call'')
   \<and> fst (and_then (Proc_init prog (Function 1) s0)
          (\<lambda>b. curry_method prog b [VInt 1, VInt 2, VInt 3])) =
       Inr (FCurriedProc 0 (Function 1) (params add3) 3 False)"
  by (simp add: fixture_defs op_defs inspect_defs alloc_def extend_argv_def accepts_def
      is_positional_def)

text \<open>
  Claim C6 says that \<open>Proc(f).curry(1)(2)(3)(4)\<close> raises an arity failure for every
  three-parameter \<open>f\<close>. The third application already returns what \<open>f(1, 2, 3)\<close>
  returns, and the fourth is applied to that value, not to the curried instance: when
  \<open>f\<close> returns a callable, here \<open>lambda w: w\<close>, the chain returns a value, 4.
\<close>

theorem over_application_returns_counterexample:
  "params (prog 5) = [pk ''x'', pk ''y'', pk ''z'']
   \<and> fst (apply_each prog (and_then (Proc_init prog (Function 5) s0)
        (\<lambda>b. curry_method prog b [VInt 1])) [[VInt 2], [VInt 3], [VInt 4]]) = Inr (VInt 4)"
  by (simp add: fixture_defs op_defs inspect_defs alloc_def extend_argv_def accepts_def
      is_positional_def)

text \<open>
  Claim C6 as amended: for every callable \<open>f(x, y, z)\<close>, \<open>Proc(f).curry(1)(2)(3)(4)\<close>
  invokes \<open>f(1, 2, 3)\<close> and calls what it returns with 4. When \<open>f(1, 2, 3)\<close> returns
  a value that is not callable, the chain raises \<open>TypeError\<close>, from the call of that
  value and not from an arity check of \<open>f\<close>.
\<close>

theorem over_application_calls_result:
  assumes "params (\<Gamma> f) = [p1, p2, p3]"
    and "kind p1 = POSITIONAL_OR_KEYWORD" and "kind p2 = POSITIONAL_OR_KEYWORD"
    and "kind p3 = POSITIONAL_OR_KEYWORD"
    and "\<not> has_default p1" and "\<not> has_default p2" and "\<not> has_default p3"
  shows "apply_each \<Gamma> (and_then (Proc_init \<Gamma> (Function f) s) (\<lambda>b. curry_method \<Gamma> b [v1]))
           [[v2], [v3], [v4]] =
         and_then (body (\<Gamma> f) [v1, v2, v3] (alloc [v1, v2, v3] s)) (\<lambda>r. py_call \<Gamma> r [v4])
    \<and> (\<forall>r s'. body (\<Gamma> f) [v1, v2, v3] (alloc [v1, v2, v3] s) = (Inr r, s')
          \<and> signature \<Gamma> r = Inl (TypeError NotCallable) \<longrightarrow>
        apply_each \<Gamma> (and_then (Proc_init \<Gamma> (Function f) s) (\<lambda>b. curry_method \<Gamma> b [v1]))
           [[v2], [v3], [v4]] = (Inl (TypeError NotCallable), s'))"
proof -
  have ar: "min_num_args [p1, p2, p3] = 3 \<and> \<not> is_variadic [p1, p2, p3]"
    using assms by (intro three_required)
  have acc: "accepts [p1, p2, p3] (length [v1, v2, v3])"
    using assms by (intro three_accepts)
  have call: "py_call \<Gamma> (Function f) [v1, v2, v3] t = body (\<Gamma> f) [v1, v2, v3] t" for t
    using acc assms(1) by (simp del: list.size)
  have step: "and_then (Inr x, t) k = k x t" for x t k
    by (simp add: and_then_def)
  have chain:
    "apply_each \<Gamma> (and_then (Proc_init \<Gamma> (Function f) s) (\<lambda>b. curry_method \<Gamma> b [v1]))
       [[v2], [v3], [v4]] =
     and_then (body (\<Gamma> f) [v1, v2, v3] (alloc [v1, v2, v3] s)) (\<lambda>r. py_call \<Gamma> r [v4])"
    using assms(1) ar
    by (simp add: Proc_init_def FCurriedProc_init_def store_simps call step
        del: py_call.simps(1))
  show ?thesis
    unfolding chain by (auto simp add: and_then_def not_callable)
qed

text \<open>
  The repository's test: \<open>lambda x, y, z: x + y + z\<close> returns 6, and \<open>6(4)\<close> raises
  \<open>TypeError\<close>.
\<close>

theorem over_application_calls_result_witness:
  "params (prog 1) = [pk ''x'', pk ''y'', pk ''z'']
   \<and> kind (pk ''x'') = POSITIONAL_OR_KEYWORD \<and> \<not> has_default (pk ''x'')
   \<and> kind (pk ''y'') = POSITIONAL_OR_KEYWORD \<and> \<not> has_default (pk ''y'')
   \<and> kind (pk ''z'') = POSITIONAL_OR_KEYWORD \<and> \<not> has_default (pk ''z'')
   \<and> body (prog 1) [VInt 1, VInt 2, VInt 3] (alloc [VInt 1, VInt 2, VInt 3] s0) =
       (Inr (VInt 6), alloc [VInt 1, VInt 2, VInt 3] s0)
   \<and> signature prog (VInt 6) = Inl (TypeError NotCallable)
   \<and> apply_each prog (and_then (Proc_init prog (Function 1) s0)
        (\<lambda>b. curry_method prog b [VInt 1])) [[VInt 2], [VInt 3], [VInt 4]] =
       (Inl (TypeError NotCallable), alloc [VInt 1, VInt 2, VInt 3] s0)"
proof -
  have p: "params (prog 1) = [pk ''x'', pk ''y'', pk ''z'']"
    by (simp add: prog_def add3_def py_add3_def)
  have k: "kind (pk n) = POSITIONAL_OR_KEYWORD" for n
    by (simp add: pk_def)
  have d: "\<not> has_default (pk n)" for n
    by (simp add: pk_def)
  have b: "body (prog 1) [VInt 1, VInt 2, VInt 3] t = (Inr (VInt 6), t)" for t
    by (simp add: prog_def add3_def py_add3_def)
  have n: "signature prog (VInt 6) = Inl (TypeError NotCallable)"
    by simp
  note th = over_application_calls_result [where \<Gamma> = prog and f = 1 and s = s0
      and ?v1.0 = "VInt 1" and ?v2.0 = "VInt 2" and ?v3.0 = "VInt 3" and ?v4.0 = "VInt 4",
      OF p k k k d d d]
  from th b n have "apply_each prog (and_then (Proc_init prog (Function 1) s0)
        (\<lambda>b. curry_method prog b [VInt 1])) [[VInt 2], [VInt 3], [VInt 4]] =
       (Inl (TypeError NotCallable), alloc [VInt 1, VInt 2, VInt 3] s0)"
    by blast
  then show ?thesis
    by (simp only: b p k d n simp_thms)
qed

end
